theory Spec2Isabelle
  imports Main "HOL-Library.AList" "HOL-Library.Sublist" "HOL-Library.Char_ord"
    "HOL-Library.List_Lexorder"
begin

section \<open>Paths\<close>

text \<open>
  A \<open>pathlib.Path\<close> is modelled by its list of components, relative to the working
  directory of the process (no drive, no root, no symbolic links). Two facts of pathlib
  matter below: \<open>str\<close> joins the components with a slash, and the comparison that
  \<open>sorted\<close> uses on paths compares the lists of components, each component as a string
  (by code point), not the joined strings. With \<open>HOL-Library.List_Lexorder\<close> and
  \<open>HOL-Library.Char_ord\<close> the order \<open>\<le>\<close> on \<open>string list\<close> is exactly that order.
\<close>

type_synonym path = "string list"

fun join_with :: "string \<Rightarrow> string list \<Rightarrow> string" where
  "join_with sep [] = []"
| "join_with sep [x] = x"
| "join_with sep (x # y # ys) = x @ sep @ join_with sep (y # ys)"

definition str_path :: "path \<Rightarrow> string" where
  "str_path p = (if p = [] then ''.'' else join_with ''/'' p)"

fun split_on :: "char \<Rightarrow> string \<Rightarrow> string list" where
  "split_on c [] = [[]]"
| "split_on c (x # xs) =
     (if x = c then [] # split_on c xs
      else (case split_on c xs of [] \<Rightarrow> [[x]] | w # ws \<Rightarrow> (x # w) # ws))"

definition Path :: "string \<Rightarrow> path" where
  "Path s = filter (\<lambda>w. w \<noteq> [] \<and> w \<noteq> ''.'') (split_on CHR ''/'' s)"

definition parent :: "path \<Rightarrow> path" where
  "parent p = butlast p"

definition name :: "path \<Rightarrow> string" where
  "name p = (if p = [] then [] else last p)"

fun rfind :: "string \<Rightarrow> char \<Rightarrow> nat option" where
  "rfind [] c = None"
| "rfind (x # xs) c =
     (case rfind xs c of
        Some i \<Rightarrow> Some (Suc i)
      | None \<Rightarrow> if x = c then Some 0 else None)"

definition suffix_of :: "string \<Rightarrow> string" where
  "suffix_of nm =
     (case rfind nm CHR ''.'' of
        None \<Rightarrow> []
      | Some i \<Rightarrow> if 0 < i \<and> i < length nm - 1 then drop i nm else [])"

section \<open>Errors and results\<close>

datatype error =
    ValueError string
  | FileNotFoundError string
  | NotADirectoryError string
  | IsADirectoryError string
  | OSError string
  | SystemExit nat
  | CollaboratorError string

datatype 'a result = Return 'a | Raise error

definition with_suffix :: "path \<Rightarrow> string \<Rightarrow> path result" where
  "with_suffix p suf =
     (if CHR ''/'' \<in> set suf then Raise (ValueError (''Invalid suffix '' @ suf))
      else if (suf \<noteq> [] \<and> \<not> prefix ''.'' suf) \<or> suf = ''.''
        then Raise (ValueError (''Invalid suffix '' @ suf))
      else if name p = [] then Raise (ValueError (str_path p @ '' has an empty name''))
      else
        (let old_suffix = suffix_of (name p);
             nm = (if old_suffix = [] then name p @ suf
                   else take (length (name p) - length old_suffix) (name p) @ suf)
         in Return (butlast p @ [nm])))"

section \<open>The file system\<close>

text \<open>
  The file system below the working directory is a tree: a regular file with its
  content, or a directory with its entries. \<open>lookup\<close> is path resolution;
  \<open>Path.exists\<close> is \<open>lookup fs p \<noteq> None\<close>.
\<close>

datatype node = File string | Dir "(string \<times> node) list"

fun lookup :: "node \<Rightarrow> path \<Rightarrow> node option" where
  "lookup n [] = Some n"
| "lookup (File c) (x # p) = None"
| "lookup (Dir es) (x # p) = (case map_of es x of None \<Rightarrow> None | Some n \<Rightarrow> lookup n p)"

definition path_exists :: "node \<Rightarrow> path \<Rightarrow> bool" where
  "path_exists fs p = (lookup fs p \<noteq> None)"

definition listdir :: "node \<Rightarrow> path \<Rightarrow> string list" where
  "listdir fs p = (case lookup fs p of Some (Dir es) \<Rightarrow> map fst es | _ \<Rightarrow> [])"

fun remove :: "node \<Rightarrow> path \<Rightarrow> node" where
  "remove n [] = n"
| "remove (File c) (x # p) = File c"
| "remove (Dir es) [x] = Dir (AList.delete x es)"
| "remove (Dir es) (x # y # p) =
     (case map_of es x of
        None \<Rightarrow> Dir es
      | Some n \<Rightarrow> Dir (AList.update x (remove n (y # p)) es))"

fun put :: "node \<Rightarrow> path \<Rightarrow> node \<Rightarrow> node" where
  "put n [] new = new"
| "put (File c) (x # p) new = File c"
| "put (Dir es) [x] new = Dir (AList.update x new es)"
| "put (Dir es) (x # y # p) new =
     (case map_of es x of
        None \<Rightarrow> Dir es
      | Some n \<Rightarrow> Dir (AList.update x (put n (y # p) new) es))"

text \<open>
  \<open>Path.glob\<close> for patterns whose segments are literal names or \<open>prefix*\<close>: a wildcard
  segment scans the directory and keeps the names that match, a literal segment checks
  that the entry exists. The result comes in directory order.
\<close>

datatype seg = Lit string | StartsWith string

fun glob :: "node \<Rightarrow> path \<Rightarrow> seg list \<Rightarrow> path list" where
  "glob fs base [] = [base]"
| "glob fs base (Lit x # gs) =
     (if path_exists fs (base @ [x]) then glob fs (base @ [x]) gs else [])"
| "glob fs base (StartsWith pre # gs) =
     concat (map (\<lambda>n. glob fs (base @ [n]) gs) (filter (prefix pre) (listdir fs base)))"

section \<open>Module constants\<close>

fun str_nat :: "nat \<Rightarrow> string" where
  "str_nat n =
     (if n < 10 then [char_of (48 + n)]
      else str_nat (n div 10) @ [char_of (48 + n mod 10)])"

declare str_nat.simps [simp del]

definition str_int :: "int \<Rightarrow> string" where
  "str_int i = (if i < 0 then ''-'' @ str_nat (nat (- i)) else str_nat (nat i))"

definition ROBOFLOW_VERSION :: int where
  "ROBOFLOW_VERSION = 18"

definition DATA_ROOT :: path where
  "DATA_ROOT = Path (''Mahjong_detect-'' @ str_int ROBOFLOW_VERSION)"

definition BASE_MODEL :: string where
  "BASE_MODEL = ''yolo11s.pt''"

definition IMGSZ :: int where
  "IMGSZ = 640"

definition RUNS_DIR :: path where
  "RUNS_DIR = Path ''runs/detect''"

definition COREML_OUTPUT_NAME :: string where
  "COREML_OUTPUT_NAME = ''MahjongTileDetector''"

section \<open>Locating the weights\<close>

definition no_weights_msg :: string where
  "no_weights_msg = ''No trained weights found. Run with --train first.''"

definition get_best_weights :: "node \<Rightarrow> path result" where
  "get_best_weights fs =
     (let candidates =
            sort (glob fs (parent RUNS_DIR) [StartsWith ''detect'', Lit ''weights'', Lit ''best.pt''])
      in if candidates \<noteq> [] then Return (last candidates)
         else
           (let candidates =
                  sort (glob fs (parent RUNS_DIR)
                          [StartsWith ''detect'', Lit ''weights'', Lit ''last.pt''])
            in if candidates \<noteq> [] then Return (last candidates)
               else Raise (FileNotFoundError no_weights_msg)))"

section \<open>Collaborators, state and programs\<close>

text \<open>
  The dataset service (roboflow), the detection library (ultralytics) and the loader of
  the \<open>.env\<close> file are not part of the program. Each is a parameter: a function that
  takes its arguments and the file system and returns the file system it leaves, with the
  exception it raised, if any. Every call is also written to a log, with its arguments.
  The imports at the head of each function are taken to succeed.
\<close>

record rf_request =
  rf_api_key :: string
  rf_workspace :: string
  rf_project :: string
  rf_version :: int
  rf_format :: string

text \<open>
  The arguments of \<open>model.train\<close>; \<open>train_data\<close> is the path whose absolute form the
  source passes.
\<close>

record train_args =
  train_data :: path
  train_epochs :: int
  train_imgsz :: int
  train_batch :: int
  train_device :: string
  train_project :: string
  train_name :: string

record export_args =
  export_format :: string
  export_nms :: bool
  export_imgsz :: int

datatype call =
    RoboflowDownload rf_request
  | YOLO string
  | Train string train_args
  | Export string export_args

record collaborators =
  load_dotenv :: "node \<Rightarrow> (string \<rightharpoonup> string) \<Rightarrow> (string \<rightharpoonup> string)"
  roboflow_download :: "rf_request \<Rightarrow> node \<Rightarrow> error option \<times> node"
  yolo_load :: "string \<Rightarrow> node \<Rightarrow> error option \<times> node"
  yolo_train :: "string \<Rightarrow> train_args \<Rightarrow> node \<Rightarrow> error option \<times> node"
  yolo_export :: "string \<Rightarrow> export_args \<Rightarrow> node \<Rightarrow> error option \<times> node"

text \<open>
  The state of a run: the file system, the process environment, the module global
  \<open>EPOCHS\<close> (the only global the program reassigns), the log of collaborator calls and
  the lines printed.
\<close>

record state =
  files :: node
  environ :: "string \<rightharpoonup> string"
  EPOCHS :: int
  calls :: "call list"
  stdout :: "string list"

type_synonym 'a prog = "state \<Rightarrow> 'a result \<times> state"

definition ret :: "'a \<Rightarrow> 'a prog" where
  "ret x = (\<lambda>s. (Return x, s))"

definition raise :: "error \<Rightarrow> 'a prog" where
  "raise e = (\<lambda>s. (Raise e, s))"

definition andthen :: "'a prog \<Rightarrow> ('a \<Rightarrow> 'b prog) \<Rightarrow> 'b prog" where
  "andthen m f =
     (\<lambda>s. case m s of (Return x, s') \<Rightarrow> f x s' | (Raise e, s') \<Rightarrow> (Raise e, s'))"

definition print :: "string \<Rightarrow> unit prog" where
  "print line = (\<lambda>s. (Return (), s\<lparr>stdout := stdout s @ [line]\<rparr>))"

definition exists :: "path \<Rightarrow> bool prog" where
  "exists p = (\<lambda>s. (Return (path_exists (files s) p), s))"

definition collaborator :: "call \<Rightarrow> (node \<Rightarrow> error option \<times> node) \<Rightarrow> unit prog" where
  "collaborator ev f =
     (\<lambda>s. case f (files s) of
            (None, fs) \<Rightarrow> (Return (), s\<lparr>files := fs, calls := calls s @ [ev]\<rparr>)
          | (Some e, fs) \<Rightarrow> (Raise e, s\<lparr>files := fs, calls := calls s @ [ev]\<rparr>))"

text \<open>
  \<open>shutil.rmtree\<close>: the path must be a directory; it is removed with everything below
  it. On the working directory itself the content goes and the final \<open>rmdir\<close> fails.
\<close>

definition rmtree :: "path \<Rightarrow> unit prog" where
  "rmtree p =
     (\<lambda>s. case lookup (files s) p of
            None \<Rightarrow> (Raise (FileNotFoundError (str_path p)), s)
          | Some (File c) \<Rightarrow> (Raise (NotADirectoryError (str_path p)), s)
          | Some (Dir es) \<Rightarrow>
              if p = [] then (Raise (OSError (str_path p)), s\<lparr>files := Dir []\<rparr>)
              else (Return (), s\<lparr>files := remove (files s) p\<rparr>))"

text \<open>
  \<open>Path.rename\<close> (POSIX \<open>rename\<close>): the source must exist and the directory of the
  destination must be a directory; a directory cannot move below itself; an existing
  destination is replaced only by a file over a file or a directory over an empty
  directory.
\<close>

definition rename :: "path \<Rightarrow> path \<Rightarrow> unit prog" where
  "rename src dst =
     (\<lambda>s. case lookup (files s) src of
            None \<Rightarrow> (Raise (FileNotFoundError (str_path src)), s)
          | Some n \<Rightarrow>
              if src = [] \<or> dst = [] then (Raise (OSError (str_path src)), s)
              else
                (case lookup (files s) (butlast dst) of
                   None \<Rightarrow> (Raise (FileNotFoundError (str_path dst)), s)
                 | Some (File c) \<Rightarrow> (Raise (NotADirectoryError (str_path dst)), s)
                 | Some (Dir ds) \<Rightarrow>
                     if src = dst then (Return (), s)
                     else if prefix src dst then (Raise (OSError (str_path src)), s)
                     else
                       (let moved = s\<lparr>files := put (remove (files s) src) dst n\<rparr>
                        in case (lookup (files s) dst, n) of
                             (None, _) \<Rightarrow> (Return (), moved)
                           | (Some (File c), File c') \<Rightarrow> (Return (), moved)
                           | (Some (File c), Dir es) \<Rightarrow>
                               (Raise (NotADirectoryError (str_path dst)), s)
                           | (Some (Dir es'), File c') \<Rightarrow>
                               (Raise (IsADirectoryError (str_path dst)), s)
                           | (Some (Dir es'), Dir es) \<Rightarrow>
                               if es' = [] then (Return (), moved)
                               else (Raise (OSError (str_path dst)), s))))"

section \<open>Printed text\<close>

text \<open>The non-ASCII characters of the messages, as their UTF-8 bytes.\<close>

definition check_mark :: string where
  "check_mark = [CHR 0xE2, CHR 0x9C, CHR 0x85]"

definition package_sign :: string where
  "package_sign = [CHR 0xF0, CHR 0x9F, CHR 0x93, CHR 0xA6]"

definition rocket_sign :: string where
  "rocket_sign = [CHR 0xF0, CHR 0x9F, CHR 0x9A, CHR 0x80]"

definition phone_sign :: string where
  "phone_sign = [CHR 0xF0, CHR 0x9F, CHR 0x93, CHR 0xB1]"

definition warning_sign :: string where
  "warning_sign = [CHR 0xE2, CHR 0x9A, CHR 0xA0, CHR 0xEF, CHR 0xB8, CHR 0x8F]"

definition arrow_sign :: string where
  "arrow_sign = [CHR 0xE2, CHR 0x86, CHR 0x92]"

definition dash_sign :: string where
  "dash_sign = [CHR 0xE2, CHR 0x80, CHR 0x94]"

definition api_key_msg :: string where
  "api_key_msg =
     ''Set your Roboflow API key:'' @ [CHR 0x0A] @ ''  echo '' @ [CHR 0x27]
       @ ''API_KEY=your_key_here'' @ [CHR 0x27] @ '' > .env''"

definition downloading_msg :: string where
  "downloading_msg = package_sign @ ''  Dataset not found, downloading from Roboflow...''"

definition downloaded_msg :: string where
  "downloaded_msg = check_mark @ ''  Dataset downloaded to '' @ str_path DATA_ROOT"

definition missing_msg :: "path \<Rightarrow> string" where
  "missing_msg data_yaml = ''Missing '' @ str_path data_yaml"

definition training_msg :: "int \<Rightarrow> string" where
  "training_msg epochs =
     rocket_sign @ ''  Training '' @ BASE_MODEL @ '' for '' @ str_int epochs
       @ '' epochs at imgsz='' @ str_int IMGSZ @ ''...''"

definition complete_msg :: "path \<Rightarrow> string" where
  "complete_msg w = check_mark @ ''  Training complete! Weights at '' @ str_path w"

definition exporting_msg :: "path \<Rightarrow> string" where
  "exporting_msg weights_path =
     phone_sign @ ''  Exporting '' @ str_path weights_path @ '' '' @ arrow_sign
       @ '' CoreML .mlpackage ...''"

definition saved_msg :: "path \<Rightarrow> string" where
  "saved_msg target = check_mark @ ''  CoreML model saved: '' @ str_path target"

definition drag_msg :: "path \<Rightarrow> string" where
  "drag_msg target =
     ''  1. Drag '' @ [CHR 0x27] @ str_path target @ [CHR 0x27] @ '' into Xcode ''
       @ arrow_sign @ '' '' @ [CHR 0x27] @ ''Mahjong Helper'' @ [CHR 0x27] @ '' group''"

definition build_msg :: string where
  "build_msg =
     ''  2. Build & run '' @ dash_sign @ '' TileDetector.swift will pick it up automatically''"

definition not_found_warning :: "path \<Rightarrow> string" where
  "not_found_warning exported =
     warning_sign @ ''  Expected export at '' @ str_path exported @ '' but not found.''"

definition check_output_hint :: string where
  "check_output_hint = ''   Check the ultralytics output above for the actual path.''"

section \<open>The program\<close>

definition download_data :: "collaborators \<Rightarrow> unit prog" where
  "download_data c =
     andthen (\<lambda>s. (Return (), s\<lparr>environ := load_dotenv c (files s) (environ s)\<rparr>)) (\<lambda>_.
     andthen (\<lambda>s. (Return (environ s ''API_KEY''), s)) (\<lambda>api_key.
     case api_key of
       None \<Rightarrow> raise (ValueError api_key_msg)
     | Some k \<Rightarrow>
         if k = [] then raise (ValueError api_key_msg)
         else
           (let req = \<lparr>rf_api_key = k, rf_workspace = ''mahjongdetect-6yabv'',
                       rf_project = ''mahjong_detect'', rf_version = ROBOFLOW_VERSION,
                       rf_format = ''yolov11''\<rparr>
            in andthen (collaborator (RoboflowDownload req) (roboflow_download c req)) (\<lambda>_.
               print downloaded_msg))))"

definition train :: "collaborators \<Rightarrow> unit prog" where
  "train c =
     andthen (exists DATA_ROOT) (\<lambda>found.
     andthen (if \<not> found
              then andthen (print downloading_msg) (\<lambda>_. download_data c)
              else ret ()) (\<lambda>_.
     let data_yaml = DATA_ROOT @ [''data.yaml''] in
     andthen (exists data_yaml) (\<lambda>found_yaml.
     if \<not> found_yaml then raise (FileNotFoundError (missing_msg data_yaml))
     else
       andthen (collaborator (YOLO BASE_MODEL) (yolo_load c BASE_MODEL)) (\<lambda>_.
       andthen (\<lambda>s. print (training_msg (EPOCHS s)) s) (\<lambda>_.
       andthen (\<lambda>s.
                 (let a = \<lparr>train_data = data_yaml, train_epochs = EPOCHS s,
                            train_imgsz = IMGSZ, train_batch = - 1, train_device = ''mps'',
                            train_project = str_path (parent RUNS_DIR),
                            train_name = name RUNS_DIR\<rparr>
                  in collaborator (Train BASE_MODEL a) (yolo_train c BASE_MODEL a) s)) (\<lambda>_.
       andthen (\<lambda>s. (get_best_weights (files s), s)) (\<lambda>w.
       print (complete_msg w))))))))"

definition export_to_coreml :: "collaborators \<Rightarrow> path option \<Rightarrow> unit prog" where
  "export_to_coreml c weights_path_arg =
     andthen (case weights_path_arg of
                None \<Rightarrow> (\<lambda>s. (get_best_weights (files s), s))
              | Some w \<Rightarrow> ret w) (\<lambda>weights_path.
     andthen (print (exporting_msg weights_path)) (\<lambda>_.
     andthen (collaborator (YOLO (str_path weights_path))
                (yolo_load c (str_path weights_path))) (\<lambda>_.
     let a = \<lparr>export_format = ''coreml'', export_nms = True, export_imgsz = IMGSZ\<rparr> in
     andthen (collaborator (Export (str_path weights_path) a)
                (yolo_export c (str_path weights_path) a)) (\<lambda>_.
     andthen (\<lambda>s. (with_suffix weights_path ''.mlpackage'', s)) (\<lambda>exported.
     andthen (exists exported) (\<lambda>found.
     if found then
       (let target = Path (COREML_OUTPUT_NAME @ ''.mlpackage'') in
        andthen (exists target) (\<lambda>stale.
        andthen (if stale then rmtree target else ret ()) (\<lambda>_.
        andthen (rename exported target) (\<lambda>_.
        andthen (print (saved_msg target)) (\<lambda>_.
        andthen (print []) (\<lambda>_.
        andthen (print ''Next steps:'') (\<lambda>_.
        andthen (print (drag_msg target)) (\<lambda>_.
        print build_msg))))))))
     else
       andthen (print (not_found_warning exported)) (\<lambda>_.
       print check_output_hint)))))))"

text \<open>
  The command line as \<open>argparse\<close> sees it, and the parsed arguments: \<open>--epochs\<close>
  defaults to the value \<open>EPOCHS\<close> has when the parser is built.
\<close>

record cli =
  cli_train :: bool
  cli_export :: bool
  cli_weights :: "string option"
  cli_epochs :: "int option"

record args =
  args_train :: bool
  args_export :: bool
  args_weights :: "string option"
  args_epochs :: int

definition parse_args :: "int \<Rightarrow> cli \<Rightarrow> args" where
  "parse_args default_epochs a =
     \<lparr>args_train = cli_train a, args_export = cli_export a, args_weights = cli_weights a,
      args_epochs = (case cli_epochs a of None \<Rightarrow> default_epochs | Some e \<Rightarrow> e)\<rparr>"

text \<open>The help text that \<open>argparse\<close> prints, reduced to the description of the parser.\<close>

definition help_text :: string where
  "help_text = ''Train & export Mahjong tile detection model for iOS''"

definition main :: "collaborators \<Rightarrow> cli \<Rightarrow> unit prog" where
  "main c argv =
     andthen (\<lambda>s. (Return (parse_args (EPOCHS s) argv), s)) (\<lambda>a.
     andthen (\<lambda>s. if args_epochs a \<noteq> EPOCHS s
                   then (Return (), s\<lparr>EPOCHS := args_epochs a\<rparr>)
                   else (Return (), s)) (\<lambda>_.
     andthen (if \<not> args_train a \<and> \<not> args_export a
              then andthen (print help_text) (\<lambda>_.
                   andthen (print ([CHR 0x0A] @ ''Example:'')) (\<lambda>_.
                   andthen (print ''  python train_and_export.py --train --export'') (\<lambda>_.
                   raise (SystemExit 0))))
              else ret ()) (\<lambda>_.
     andthen (if args_train a then train c else ret ()) (\<lambda>_.
     if args_export a
     then (let w = (case args_weights a of
                      None \<Rightarrow> None
                    | Some x \<Rightarrow> if x = [] then None else Some (Path x))
           in export_to_coreml c w)
     else ret ()))))"

text \<open>
  The state in which the module starts, and the exit status of the process: an exception
  that reaches the top level ends it with status 1, \<open>exit(n)\<close> with status \<open>n\<close>.
\<close>

definition initial_state :: "node \<Rightarrow> (string \<rightharpoonup> string) \<Rightarrow> state" where
  "initial_state fs env = \<lparr>files = fs, environ = env, EPOCHS = 30, calls = [], stdout = []\<rparr>"

definition exit_status :: "'a result \<Rightarrow> nat" where
  "exit_status r = (case r of Return x \<Rightarrow> 0 | Raise (SystemExit n) \<Rightarrow> n | Raise e \<Rightarrow> 1)"

section \<open>Specification vocabulary and example inputs\<close>

text \<open>
  The checkpoint file \<open>f\<close> of a training run, and what it means for a run that the
  run-name pattern matches to hold that checkpoint.
\<close>

definition checkpoint_path :: "string \<Rightarrow> string \<Rightarrow> path" where
  "checkpoint_path run f = [''runs'', run, ''weights'', f]"

definition has_checkpoint :: "node \<Rightarrow> string \<Rightarrow> string \<Rightarrow> bool" where
  "has_checkpoint fs f run = (prefix ''detect'' run \<and> path_exists fs (checkpoint_path run f))"

text \<open>
  The arguments of the conversion call and of the training call, the place of the
  exported package, the state in which the conversion routine leaves a run of the export
  (weights \<open>wp\<close>, file system \<open>fs2\<close>), and the lines that end a successful
  export.
\<close>

abbreviation coreml_args :: export_args where
  "coreml_args \<equiv> \<lparr>export_format = ''coreml'', export_nms = True, export_imgsz = IMGSZ\<rparr>"

abbreviation training_args :: "int \<Rightarrow> train_args" where
  "training_args e \<equiv>
     \<lparr>train_data = DATA_ROOT @ [''data.yaml''], train_epochs = e, train_imgsz = IMGSZ,
      train_batch = - 1, train_device = ''mps'', train_project = str_path (parent RUNS_DIR),
      train_name = name RUNS_DIR\<rparr>"




text \<open>
  Names for parts of the program, used to state lemmas: the two halves of \<open>train\<close>
  (making sure the dataset is there, and training on it) and the part of \<open>main\<close>
  that follows the assignment to \<open>EPOCHS\<close>. Lemmas \<open>train_split\<close> and
  \<open>main_dispatch\<close> show that \<open>train\<close> and \<open>main\<close> are composed of them.
\<close>

definition ensure_dataset :: "collaborators \<Rightarrow> unit prog" where
  "ensure_dataset c =
     andthen (exists DATA_ROOT) (\<lambda>found.
     if \<not> found then andthen (print downloading_msg) (\<lambda>_. download_data c) else ret ())"

definition train_on_dataset :: "collaborators \<Rightarrow> unit prog" where
  "train_on_dataset c =
     (let data_yaml = DATA_ROOT @ [''data.yaml''] in
      andthen (exists data_yaml) (\<lambda>found_yaml.
      if \<not> found_yaml then raise (FileNotFoundError (missing_msg data_yaml))
      else
        andthen (collaborator (YOLO BASE_MODEL) (yolo_load c BASE_MODEL)) (\<lambda>_.
        andthen (\<lambda>s. print (training_msg (EPOCHS s)) s) (\<lambda>_.
        andthen (\<lambda>s.
                  (let a = \<lparr>train_data = data_yaml, train_epochs = EPOCHS s,
                             train_imgsz = IMGSZ, train_batch = - 1, train_device = ''mps'',
                             train_project = str_path (parent RUNS_DIR),
                             train_name = name RUNS_DIR\<rparr>
                   in collaborator (Train BASE_MODEL a) (yolo_train c BASE_MODEL a) s)) (\<lambda>_.
        andthen (\<lambda>s. (get_best_weights (files s), s)) (\<lambda>w.
        print (complete_msg w)))))))"

definition dispatch :: "collaborators \<Rightarrow> args \<Rightarrow> unit prog" where
  "dispatch c a =
     andthen (if \<not> args_train a \<and> \<not> args_export a
              then andthen (print help_text) (\<lambda>_.
                   andthen (print ([CHR 0x0A] @ ''Example:'')) (\<lambda>_.
                   andthen (print ''  python train_and_export.py --train --export'') (\<lambda>_.
                   raise (SystemExit 0))))
              else ret ()) (\<lambda>_.
     andthen (if args_train a then train c else ret ()) (\<lambda>_.
     if args_export a
     then (let w = (case args_weights a of
                      None \<Rightarrow> None
                    | Some x \<Rightarrow> if x = [] then None else Some (Path x))
           in export_to_coreml c w)
     else ret ()))"

text \<open>
  What a program does to the log of collaborator calls: \<open>steps e P m\<close> says that \<open>m\<close>,
  started with \<open>EPOCHS\<close> equal to \<open>e\<close>, leaves \<open>EPOCHS\<close> as it is and only adds calls
  that satisfy \<open>P\<close>. The remote fetches in a log are counted by \<open>fetches\<close>.
\<close>

definition steps :: "int \<Rightarrow> (call \<Rightarrow> bool) \<Rightarrow> 'a prog \<Rightarrow> bool" where
  "steps e P m =
     (\<forall>s. EPOCHS s = e \<longrightarrow>
          EPOCHS (snd (m s)) = e \<and> (\<exists>cs. calls (snd (m s)) = calls s @ cs \<and> list_all P cs))"

definition is_download :: "call \<Rightarrow> bool" where
  "is_download ev = (case ev of RoboflowDownload req \<Rightarrow> True | _ \<Rightarrow> False)"

definition fetches :: "call list \<Rightarrow> nat" where
  "fetches cs = length (filter is_download cs)"

text \<open>Example trees of training runs.\<close>

definition weights_dir :: "string list \<Rightarrow> node" where
  "weights_dir fs = Dir [(''weights'', Dir (map (\<lambda>f. (f, File [])) fs))]"

definition example_runs :: node where
  "example_runs =
     Dir [(''runs'', Dir [(''detect'', weights_dir [''last.pt'']),
                          (''detect2'', weights_dir [''best.pt'', ''last.pt''])])]"

definition example_last_only :: node where
  "example_last_only =
     Dir [(''runs'', Dir [(''detect'', weights_dir [''last.pt'']),
                          (''detect2'', weights_dir [''last.pt''])])]"

definition example_two_digit :: node where
  "example_two_digit =
     Dir [(''runs'', Dir [(''detect10'', weights_dir [''best.pt'', ''last.pt'']),
                          (''detect2'', weights_dir [''best.pt'', ''last.pt''])])]"

definition example_renamed :: node where
  "example_renamed =
     Dir [(''runs'', Dir [(''detect'', weights_dir [''best.pt'']),
                          (''detect-old'', weights_dir [''best.pt''])])]"

definition empty_runs :: node where
  "empty_runs = Dir [(''runs'', Dir [])]"


definition stale_package :: node where
  "stale_package =
     Dir [(''Manifest.json'', File ''old''), (''Data'', Dir [(''weights.bin'', File ''old'')])]"

definition example_stale :: node where
  "example_stale =
     Dir [(''runs'', Dir [(''detect'', weights_dir [''last.pt'']),
                          (''detect2'', weights_dir [''best.pt'', ''last.pt''])]),
          (''MahjongTileDetector.mlpackage'', stale_package)]"

definition idle :: collaborators where
  "idle = \<lparr>load_dotenv = (\<lambda>fs env. env),
           roboflow_download = (\<lambda>req fs. (None, fs)),
           yolo_load = (\<lambda>w fs. (None, fs)),
           yolo_train = (\<lambda>m a fs. (None, fs)),
           yolo_export = (\<lambda>w a fs. (None, fs))\<rparr>"


definition offline :: collaborators where
  "offline =
     idle\<lparr>roboflow_download := (\<lambda>req fs. (Some (CollaboratorError ''connection failed''), fs))\<rparr>"

definition fetches_dataset :: collaborators where
  "fetches_dataset =
     idle\<lparr>roboflow_download :=
            (\<lambda>req fs. (None, put fs [''Mahjong_detect-18'']
                                (Dir [(''data.yaml'', File ''nc: 42'')])))\<rparr>"

text \<open>A working directory that holds the dataset, and environments with and without a key.\<close>

definition example_dataset :: node where
  "example_dataset = Dir [(''Mahjong_detect-18'', Dir [(''data.yaml'', File ''nc: 42'')])]"

definition with_key :: "string \<rightharpoonup> string" where
  "with_key = [''API_KEY'' \<mapsto> ''secret'']"

section \<open>Path resolution\<close>

lemma runs_parent: "parent RUNS_DIR = [''runs'']"
  by (simp add: parent_def RUNS_DIR_def Path_def)

lemma lookup_append:
  "lookup fs (p @ q) = (case lookup fs p of None \<Rightarrow> None | Some n \<Rightarrow> lookup n q)"
proof (induction p arbitrary: fs)
  case Nil
  show ?case by simp
next
  case (Cons x p)
  show ?case
  proof (cases fs)
    case (File c)
    then show ?thesis by simp
  next
    case (Dir es)
    then show ?thesis using Cons.IH by (simp split: option.splits)
  qed
qed

lemma exists_child_listed:
  assumes "path_exists fs (p @ [x])"
  shows "x \<in> set (listdir fs p)"
proof -
  from assms obtain n where n: "lookup fs p = Some n" and x: "lookup n [x] \<noteq> None"
    by (auto simp: path_exists_def lookup_append split: option.splits)
  from x obtain es where es: "n = Dir es" and "map_of es x \<noteq> None"
    by (cases n) (auto split: option.splits)
  then have "x \<in> fst ` set es"
    by (metis map_of_eq_None_iff)
  with n es show ?thesis by (simp add: listdir_def)
qed

lemma exists_prefix:
  assumes "path_exists fs (p @ q)"
  shows "path_exists fs p"
  using assms by (auto simp: path_exists_def lookup_append split: option.splits)

lemma glob_checkpoints:
  "set (glob fs (parent RUNS_DIR) [StartsWith ''detect'', Lit ''weights'', Lit f])
     = {checkpoint_path r f | r. has_checkpoint fs f r}"
proof -
  have a: "path_exists fs [''runs'', r, ''weights'', f] \<Longrightarrow> r \<in> set (listdir fs [''runs''])" for r
    using exists_child_listed [of fs "[''runs'']" r] exists_prefix [of fs "[''runs'', r]" "[''weights'', f]"]
    by simp
  have b: "path_exists fs [''runs'', r, ''weights'', f] \<Longrightarrow> path_exists fs [''runs'', r, ''weights'']" for r
    using exists_prefix [of fs "[''runs'', r, ''weights'']" "[f]"] by simp
  show ?thesis
    using a b by (auto simp: runs_parent checkpoint_path_def has_checkpoint_def)
qed

lemma sorted_le_last:
  fixes xs :: "'a::linorder list"
  shows "sorted xs \<Longrightarrow> x \<in> set xs \<Longrightarrow> x \<le> last xs"
  by (induction xs) auto

lemma last_sort_max:
  fixes xs :: "'a::linorder list"
  assumes "xs \<noteq> []"
  shows "last (sort xs) \<in> set xs \<and> (\<forall>x\<in>set xs. x \<le> last (sort xs))"
proof -
  have ne: "sort xs \<noteq> []" using assms by (metis set_empty set_sort)
  then have "last (sort xs) \<in> set (sort xs)" by (rule last_in_set)
  moreover have "\<forall>x\<in>set (sort xs). x \<le> last (sort xs)"
    using sorted_le_last [of "sort xs"] by simp
  ultimately show ?thesis by simp
qed

lemma tier_last:
  assumes "glob fs (parent RUNS_DIR) [StartsWith ''detect'', Lit ''weights'', Lit f] \<noteq> []"
  shows "\<exists>run. last (sort (glob fs (parent RUNS_DIR) [StartsWith ''detect'', Lit ''weights'', Lit f]))
            = checkpoint_path run f
          \<and> has_checkpoint fs f run \<and> (\<forall>r. has_checkpoint fs f r \<longrightarrow> r \<le> run)"
proof -
  let ?g = "glob fs (parent RUNS_DIR) [StartsWith ''detect'', Lit ''weights'', Lit f]"
  from last_sort_max [OF assms]
  have m: "last (sort ?g) \<in> set ?g" and u: "\<forall>x\<in>set ?g. x \<le> last (sort ?g)" by auto
  from m obtain run where run: "last (sort ?g) = checkpoint_path run f" "has_checkpoint fs f run"
    unfolding glob_checkpoints by auto
  have "r \<le> run" if "has_checkpoint fs f r" for r
  proof -
    from that have "checkpoint_path r f \<in> set ?g" unfolding glob_checkpoints by auto
    with u run(1) have "checkpoint_path r f \<le> checkpoint_path run f" by auto
    then show ?thesis by (auto simp: checkpoint_path_def)
  qed
  with run show ?thesis by blast
qed

lemma tier_empty:
  "glob fs (parent RUNS_DIR) [StartsWith ''detect'', Lit ''weights'', Lit f] = []
     \<longleftrightarrow> (\<forall>r. \<not> has_checkpoint fs f r)"
proof -
  let ?g = "glob fs (parent RUNS_DIR) [StartsWith ''detect'', Lit ''weights'', Lit f]"
  have "?g = [] \<longleftrightarrow> set ?g = {}" by (simp only: set_empty)
  also have "\<dots> \<longleftrightarrow> {checkpoint_path r f | r. has_checkpoint fs f r} = {}"
    by (simp only: glob_checkpoints)
  also have "\<dots> \<longleftrightarrow> (\<forall>r. \<not> has_checkpoint fs f r)" by blast
  finally show ?thesis .
qed


lemma sort_Nil_iff:
  fixes xs :: "'a::linorder list"
  shows "sort xs = [] \<longleftrightarrow> xs = []"
  by (metis set_empty set_sort)

lemma get_best_weights_best:
  assumes "has_checkpoint fs ''best.pt'' r0"
  shows "\<exists>run. get_best_weights fs = Return (checkpoint_path run ''best.pt'')
           \<and> has_checkpoint fs ''best.pt'' run
           \<and> (\<forall>r. has_checkpoint fs ''best.pt'' r \<longrightarrow> r \<le> run)"
proof -
  let ?g = "glob fs (parent RUNS_DIR) [StartsWith ''detect'', Lit ''weights'', Lit ''best.pt'']"
  from assms have ne: "?g \<noteq> []" by (simp only: tier_empty) blast
  then have "get_best_weights fs = Return (last (sort ?g))"
    by (simp add: get_best_weights_def Let_def sort_Nil_iff del: glob.simps)
  with tier_last [OF ne] show ?thesis by (simp del: glob.simps)
qed

lemma get_best_weights_last:
  assumes "\<forall>r. \<not> has_checkpoint fs ''best.pt'' r" and "has_checkpoint fs ''last.pt'' r1"
  shows "\<exists>run. get_best_weights fs = Return (checkpoint_path run ''last.pt'')
           \<and> has_checkpoint fs ''last.pt'' run
           \<and> (\<forall>r. has_checkpoint fs ''last.pt'' r \<longrightarrow> r \<le> run)"
proof -
  let ?b = "glob fs (parent RUNS_DIR) [StartsWith ''detect'', Lit ''weights'', Lit ''best.pt'']"
  let ?g = "glob fs (parent RUNS_DIR) [StartsWith ''detect'', Lit ''weights'', Lit ''last.pt'']"
  from assms(1) have e: "?b = []" by (simp only: tier_empty) simp
  from assms(2) have ne: "?g \<noteq> []" by (simp only: tier_empty) blast
  from e ne have "get_best_weights fs = Return (last (sort ?g))"
    by (simp add: get_best_weights_def Let_def sort_Nil_iff del: glob.simps)
  with tier_last [OF ne] show ?thesis by (simp del: glob.simps)
qed

lemma get_best_weights_none:
  assumes "\<forall>r. \<not> has_checkpoint fs ''best.pt'' r" and "\<forall>r. \<not> has_checkpoint fs ''last.pt'' r"
  shows "get_best_weights fs = Raise (FileNotFoundError no_weights_msg)"
proof -
  let ?b = "glob fs (parent RUNS_DIR) [StartsWith ''detect'', Lit ''weights'', Lit ''best.pt'']"
  let ?g = "glob fs (parent RUNS_DIR) [StartsWith ''detect'', Lit ''weights'', Lit ''last.pt'']"
  from assms have "?b = []" "?g = []" by (simp_all only: tier_empty) simp_all
  then show ?thesis
    by (simp add: get_best_weights_def Let_def del: glob.simps)
qed

lemma checkpoint_path_le:
  "checkpoint_path r f \<le> checkpoint_path r' f \<longleftrightarrow> r \<le> r'"
  by (auto simp: checkpoint_path_def)

text \<open>
  Claim C2. If some run matched by the pattern \<open>detect*\<close> holds a \<open>best.pt\<close>, then
  \<open>get_best_weights\<close> returns a \<open>best.pt\<close> of a matched run, the last one in the order
  of \<open>sorted\<close> (no other candidate is greater), and never a \<open>last.pt\<close>. Only when no
  matched run holds a \<open>best.pt\<close> and some run holds a \<open>last.pt\<close> does it return a
  \<open>last.pt\<close>, again the last one in sorted order.
\<close>

theorem best_over_last:
  "(has_checkpoint fs ''best.pt'' r0 \<longrightarrow>
      (\<exists>run. get_best_weights fs = Return (checkpoint_path run ''best.pt'')
          \<and> has_checkpoint fs ''best.pt'' run
          \<and> (\<forall>r. has_checkpoint fs ''best.pt'' r
                \<longrightarrow> checkpoint_path r ''best.pt'' \<le> checkpoint_path run ''best.pt''))
      \<and> (\<forall>r. get_best_weights fs \<noteq> Return (checkpoint_path r ''last.pt'')))
   \<and> ((\<forall>r. \<not> has_checkpoint fs ''best.pt'' r) \<and> has_checkpoint fs ''last.pt'' r1 \<longrightarrow>
      (\<exists>run. get_best_weights fs = Return (checkpoint_path run ''last.pt'')
          \<and> has_checkpoint fs ''last.pt'' run
          \<and> (\<forall>r. has_checkpoint fs ''last.pt'' r
                \<longrightarrow> checkpoint_path r ''last.pt'' \<le> checkpoint_path run ''last.pt'')))"
proof (intro conjI impI)
  assume b: "has_checkpoint fs ''best.pt'' r0"
  from get_best_weights_best [OF b]
  show "\<exists>run. get_best_weights fs = Return (checkpoint_path run ''best.pt'')
          \<and> has_checkpoint fs ''best.pt'' run
          \<and> (\<forall>r. has_checkpoint fs ''best.pt'' r
                \<longrightarrow> checkpoint_path r ''best.pt'' \<le> checkpoint_path run ''best.pt'')"
    by (simp add: checkpoint_path_le)
  from get_best_weights_best [OF b]
  show "\<forall>r. get_best_weights fs \<noteq> Return (checkpoint_path r ''last.pt'')"
    by (auto simp: checkpoint_path_def)
next
  assume l: "(\<forall>r. \<not> has_checkpoint fs ''best.pt'' r) \<and> has_checkpoint fs ''last.pt'' r1"
  then have "\<forall>r. \<not> has_checkpoint fs ''best.pt'' r" and "has_checkpoint fs ''last.pt'' r1"
    by simp_all
  from get_best_weights_last [OF this]
  show "\<exists>run. get_best_weights fs = Return (checkpoint_path run ''last.pt'')
          \<and> has_checkpoint fs ''last.pt'' run
          \<and> (\<forall>r. has_checkpoint fs ''last.pt'' r
                \<longrightarrow> checkpoint_path r ''last.pt'' \<le> checkpoint_path run ''last.pt'')"
    by (simp add: checkpoint_path_le)
qed

text \<open>
  The trees of the specification: with runs \<open>detect\<close> (only \<open>last.pt\<close>) and \<open>detect2\<close>
  (\<open>best.pt\<close> and \<open>last.pt\<close>) the result is \<open>runs/detect2/weights/best.pt\<close>; with only
  \<open>last.pt\<close> in both runs it is \<open>runs/detect2/weights/last.pt\<close>.
\<close>

lemmas eval_defs = get_best_weights_def has_checkpoint_def checkpoint_path_def path_exists_def
  listdir_def weights_dir_def runs_parent

theorem best_over_last_witness:
  "has_checkpoint example_runs ''best.pt'' ''detect2''
   \<and> has_checkpoint example_runs ''last.pt'' ''detect''
   \<and> get_best_weights example_runs = Return [''runs'', ''detect2'', ''weights'', ''best.pt'']
   \<and> \<not> (\<exists>r. has_checkpoint example_runs ''best.pt'' r \<and> ''detect2'' < r)
   \<and> (\<forall>r. \<not> has_checkpoint example_last_only ''best.pt'' r)
   \<and> has_checkpoint example_last_only ''last.pt'' ''detect''
   \<and> get_best_weights example_last_only = Return [''runs'', ''detect2'', ''weights'', ''last.pt'']
   \<and> \<not> (\<exists>r. has_checkpoint example_last_only ''last.pt'' r \<and> ''detect2'' < r)"
proof -
  have h: "has_checkpoint example_runs ''best.pt'' ''detect2''"
    and h': "has_checkpoint example_runs ''last.pt'' ''detect''"
    by (simp_all add: eval_defs example_runs_def)
  have v: "get_best_weights example_runs = Return [''runs'', ''detect2'', ''weights'', ''best.pt'']"
    by (simp add: eval_defs example_runs_def)
  have n: "\<forall>r. \<not> has_checkpoint example_last_only ''best.pt'' r"
    by (simp add: eval_defs example_last_only_def)
  have l: "has_checkpoint example_last_only ''last.pt'' ''detect''"
    by (simp add: eval_defs example_last_only_def)
  have w: "get_best_weights example_last_only = Return [''runs'', ''detect2'', ''weights'', ''last.pt'']"
    by (simp add: eval_defs example_last_only_def)
  from best_over_last [of example_runs "''detect2''" "''detect''"] h
  obtain run where r: "get_best_weights example_runs = Return (checkpoint_path run ''best.pt'')"
    and m: "\<forall>r. has_checkpoint example_runs ''best.pt'' r
              \<longrightarrow> checkpoint_path r ''best.pt'' \<le> checkpoint_path run ''best.pt''"
    by blast
  from r v have "run = ''detect2''" by (simp add: checkpoint_path_def)
  with m have a: "\<forall>r. has_checkpoint example_runs ''best.pt'' r \<longrightarrow> r \<le> ''detect2''"
    by (simp add: checkpoint_path_le)
  from best_over_last [of example_last_only "''detect''" "''detect''"] n l
  obtain run' where r': "get_best_weights example_last_only = Return (checkpoint_path run' ''last.pt'')"
    and m': "\<forall>r. has_checkpoint example_last_only ''last.pt'' r
              \<longrightarrow> checkpoint_path r ''last.pt'' \<le> checkpoint_path run' ''last.pt''"
    by blast
  from r' w have "run' = ''detect2''" by (simp add: checkpoint_path_def)
  with m' have b: "\<forall>r. has_checkpoint example_last_only ''last.pt'' r \<longrightarrow> r \<le> ''detect2''"
    by (simp add: checkpoint_path_le)
  from a have a': "\<not> (\<exists>r. has_checkpoint example_runs ''best.pt'' r \<and> ''detect2'' < r)"
    by (meson not_le)
  from b have b': "\<not> (\<exists>r. has_checkpoint example_last_only ''last.pt'' r \<and> ''detect2'' < r)"
    by (meson not_le)
  from h h' v a' n l w b' show ?thesis by blast
qed

lemma append_slash_le:
  assumes "r \<le> r'" and "\<forall>c\<in>set r'. CHR ''/'' < c"
  shows "r @ CHR ''/'' # t \<le> r' @ CHR ''/'' # t"
  using assms
proof (induction r arbitrary: r')
  case Nil
  then show ?case by (cases r') auto
next
  case (Cons a r)
  then show ?case by (cases r') auto
qed

lemma str_checkpoint_path:
  "str_path (checkpoint_path r f) = ''runs/'' @ r @ ''/weights/'' @ f"
  by (simp add: str_path_def checkpoint_path_def)

lemma str_checkpoint_path_le:
  assumes "r \<le> r'" and "\<forall>c\<in>set r'. CHR ''/'' < c"
  shows "str_path (checkpoint_path r f) \<le> str_path (checkpoint_path r' f)"
  using append_slash_le [OF assms, of "''weights/'' @ f"]
  by (simp add: str_checkpoint_path)

lemma get_best_weights_Return:
  assumes "get_best_weights fs = Return p"
  shows "\<exists>f run. (f = ''best.pt'' \<or> f = ''last.pt'') \<and> p = checkpoint_path run f
           \<and> has_checkpoint fs f run \<and> (\<forall>r. has_checkpoint fs f r \<longrightarrow> r \<le> run)"
proof (cases "\<exists>r. has_checkpoint fs ''best.pt'' r")
  case True
  then obtain r0 where "has_checkpoint fs ''best.pt'' r0" ..
  from get_best_weights_best [OF this] assms show ?thesis by auto
next
  case nb: False
  show ?thesis
  proof (cases "\<exists>r. has_checkpoint fs ''last.pt'' r")
    case True
    then obtain r1 where "has_checkpoint fs ''last.pt'' r1" ..
    from get_best_weights_last [OF _ this] nb assms show ?thesis by auto
  next
    case False
    with nb get_best_weights_none [of fs] assms show ?thesis by simp
  qed
qed

text \<open>
  Claim C10, as the code has it. Within a tier the selected candidate is the greatest one
  in the order of paths, which compares the lists of components; so the selected run
  name is the greatest run name as a string, and \<open>detect2\<close> wins over \<open>detect10\<close>. It
  is also the greatest candidate in the order of the joined strings whenever the selected
  run name has no character below the slash.
\<close>

theorem tier_order:
  "(get_best_weights fs = Return p \<longrightarrow>
      (\<exists>f run. (f = ''best.pt'' \<or> f = ''last.pt'') \<and> p = checkpoint_path run f
          \<and> has_checkpoint fs f run
          \<and> (\<forall>r. has_checkpoint fs f r \<longrightarrow> checkpoint_path r f \<le> p)
          \<and> ((\<forall>c\<in>set run. CHR ''/'' < c) \<longrightarrow>
               (\<forall>r. has_checkpoint fs f r \<longrightarrow> str_path (checkpoint_path r f) \<le> str_path p))))
   \<and> (has_checkpoint fs ''best.pt'' ''detect2''
        \<and> (\<forall>r. has_checkpoint fs ''best.pt'' r \<longrightarrow> r = ''detect2'' \<or> r = ''detect10'')
      \<longrightarrow> get_best_weights fs = Return (checkpoint_path ''detect2'' ''best.pt''))"
proof (intro conjI impI)
  assume "get_best_weights fs = Return p"
  from get_best_weights_Return [OF this]
  obtain f run where f: "f = ''best.pt'' \<or> f = ''last.pt''" and p: "p = checkpoint_path run f"
    and h: "has_checkpoint fs f run" and m: "\<forall>r. has_checkpoint fs f r \<longrightarrow> r \<le> run"
    by blast
  from m p have a: "\<forall>r. has_checkpoint fs f r \<longrightarrow> checkpoint_path r f \<le> p"
    by (simp add: checkpoint_path_le)
  from m p have b: "(\<forall>c\<in>set run. CHR ''/'' < c) \<longrightarrow>
      (\<forall>r. has_checkpoint fs f r \<longrightarrow> str_path (checkpoint_path r f) \<le> str_path p)"
    using str_checkpoint_path_le by blast
  from f p h a b
  show "\<exists>f run. (f = ''best.pt'' \<or> f = ''last.pt'') \<and> p = checkpoint_path run f
          \<and> has_checkpoint fs f run
          \<and> (\<forall>r. has_checkpoint fs f r \<longrightarrow> checkpoint_path r f \<le> p)
          \<and> ((\<forall>c\<in>set run. CHR ''/'' < c) \<longrightarrow>
               (\<forall>r. has_checkpoint fs f r \<longrightarrow> str_path (checkpoint_path r f) \<le> str_path p))"
    by blast
next
  assume a: "has_checkpoint fs ''best.pt'' ''detect2''
        \<and> (\<forall>r. has_checkpoint fs ''best.pt'' r \<longrightarrow> r = ''detect2'' \<or> r = ''detect10'')"
  then have h: "has_checkpoint fs ''best.pt'' ''detect2''" by simp
  from get_best_weights_best [OF h]
  obtain run where g: "get_best_weights fs = Return (checkpoint_path run ''best.pt'')"
    and hr: "has_checkpoint fs ''best.pt'' run"
    and m: "\<forall>r. has_checkpoint fs ''best.pt'' r \<longrightarrow> r \<le> run"
    by blast
  from a hr have "run = ''detect2'' \<or> run = ''detect10''" by blast
  moreover from m h have "''detect2'' \<le> run" by blast
  ultimately have "run = ''detect2''" by auto
  with g show "get_best_weights fs = Return (checkpoint_path ''detect2'' ''best.pt'')" by simp
qed

theorem tier_order_witness:
  "has_checkpoint example_two_digit ''best.pt'' ''detect2''
   \<and> has_checkpoint example_two_digit ''best.pt'' ''detect10''
   \<and> \<not> (\<exists>r. has_checkpoint example_two_digit ''best.pt'' r
             \<and> r \<noteq> ''detect2'' \<and> r \<noteq> ''detect10'')
   \<and> get_best_weights example_two_digit = Return [''runs'', ''detect2'', ''weights'', ''best.pt'']
   \<and> str_path [''runs'', ''detect10'', ''weights'', ''best.pt'']
        \<le> str_path [''runs'', ''detect2'', ''weights'', ''best.pt'']"
proof -
  have h: "has_checkpoint example_two_digit ''best.pt'' ''detect2''"
    and h': "has_checkpoint example_two_digit ''best.pt'' ''detect10''"
    by (simp_all add: has_checkpoint_def checkpoint_path_def path_exists_def weights_dir_def
        example_two_digit_def)
  have o: "\<forall>r. has_checkpoint example_two_digit ''best.pt'' r \<longrightarrow> r = ''detect2'' \<or> r = ''detect10''"
    by (simp add: has_checkpoint_def checkpoint_path_def path_exists_def weights_dir_def
        example_two_digit_def)
  from tier_order [of example_two_digit "checkpoint_path ''detect2'' ''best.pt''"] h o
  have g: "get_best_weights example_two_digit = Return (checkpoint_path ''detect2'' ''best.pt'')"
    by blast
  with tier_order [of example_two_digit "checkpoint_path ''detect2'' ''best.pt''"]
  obtain f run where p: "checkpoint_path ''detect2'' ''best.pt'' = checkpoint_path run f"
    and hf: "has_checkpoint example_two_digit f run"
    and s: "(\<forall>c\<in>set run. CHR ''/'' < c) \<longrightarrow>
               (\<forall>r. has_checkpoint example_two_digit f r
                  \<longrightarrow> str_path (checkpoint_path r f)
                        \<le> str_path (checkpoint_path ''detect2'' ''best.pt''))"
    by blast
  from p have "run = ''detect2''" "f = ''best.pt''" by (simp_all add: checkpoint_path_def)
  with s h' have "str_path (checkpoint_path ''detect10'' ''best.pt'')
                    \<le> str_path (checkpoint_path ''detect2'' ''best.pt'')"
    by simp
  moreover from o have "\<not> (\<exists>r. has_checkpoint example_two_digit ''best.pt'' r
             \<and> r \<noteq> ''detect2'' \<and> r \<noteq> ''detect10'')"
    by blast
  ultimately show ?thesis using h h' g by (simp add: checkpoint_path_def)
qed

text \<open>
  The order of the joined strings is not the order used: with runs \<open>detect\<close> and
  \<open>detect-old\<close>, both holding \<open>best.pt\<close>, the result is the checkpoint of
  \<open>detect-old\<close>, while the joined string of the other candidate is greater (the hyphen
  sorts below the slash).
\<close>

theorem string_order_counterexample:
  "get_best_weights example_renamed = Return [''runs'', ''detect-old'', ''weights'', ''best.pt'']
   \<and> has_checkpoint example_renamed ''best.pt'' ''detect''
   \<and> str_path [''runs'', ''detect-old'', ''weights'', ''best.pt'']
        < str_path [''runs'', ''detect'', ''weights'', ''best.pt'']"
  by (simp add: eval_defs example_renamed_def str_path_def)

section \<open>Removing and placing nodes\<close>






lemma target_path: "Path (COREML_OUTPUT_NAME @ ''.mlpackage'') = [''MahjongTileDetector.mlpackage'']"
  by (simp add: Path_def COREML_OUTPUT_NAME_def)


section \<open>Runs of the export\<close>

lemma andthen_Return: "m s = (Return x, s') \<Longrightarrow> andthen m f s = f x s'"
  by (simp add: andthen_def)

lemma andthen_Raise: "m s = (Raise e, s') \<Longrightarrow> andthen m f s = (Raise e, s')"
  by (simp add: andthen_def)

lemma collaborator_None:
  "f (files s) = (None, fs) \<Longrightarrow> collaborator ev f s = (Return (), s\<lparr>files := fs, calls := calls s @ [ev]\<rparr>)"
  by (simp add: collaborator_def)

lemma collaborator_Some:
  "f (files s) = (Some e, fs) \<Longrightarrow> collaborator ev f s = (Raise e, s\<lparr>files := fs, calls := calls s @ [ev]\<rparr>)"
  by (simp add: collaborator_def)

lemma export_to_coreml_missing:
  assumes res: "(case w of None \<Rightarrow> get_best_weights (files s) | Some p \<Rightarrow> Return p) = Return wp"
    and load: "yolo_load c (str_path wp) (files s) = (None, fs1)"
    and conv: "yolo_export c (str_path wp) coreml_args fs1 = (None, fs2)"
    and suf: "with_suffix wp ''.mlpackage'' = Return exported"
    and missing: "\<not> path_exists fs2 exported"
  shows "export_to_coreml c w s =
           (Return (),
            s\<lparr>files := fs2,
              calls := calls s @ [YOLO (str_path wp), Export (str_path wp) coreml_args],
              stdout := stdout s @ [exporting_msg wp, not_found_warning exported,
                                    check_output_hint]\<rparr>)"
proof (cases w)
  case None
  with res have "get_best_weights (files s) = Return wp" by simp
  with None load conv suf missing show ?thesis
    by (simp add: export_to_coreml_def andthen_def print_def collaborator_def exists_def ret_def Let_def)
next
  case (Some p)
  with res have "p = wp" by simp
  with Some load conv suf missing show ?thesis
    by (simp add: export_to_coreml_def andthen_def print_def collaborator_def exists_def ret_def Let_def)
qed












text \<open>
  An old package with two files is in place, the conversion writes a package with one
  file: afterwards the package path holds the new package and the second file is gone.
\<close>

lemmas run_defs = export_to_coreml_def andthen_def print_def collaborator_def exists_def ret_def
  raise_def rmtree_def rename_def Let_def target_path

lemma example_stale_best:
  "get_best_weights example_stale = Return [''runs'', ''detect2'', ''weights'', ''best.pt'']"
  by (simp add: eval_defs example_stale_def)

lemma best_suffix:
  "with_suffix [''runs'', ''detect2'', ''weights'', ''best.pt''] ''.mlpackage''
     = Return [''runs'', ''detect2'', ''weights'', ''best.mlpackage'']"
  by (simp add: with_suffix_def name_def suffix_of_def Let_def)


section \<open>The converted package is not where it is expected\<close>

text \<open>
  Claim C1, as the code has it. When the conversion routine returns and the predicted
  path next to the weights does not exist, the export raises nothing: it prints a warning
  that names the expected path, and a hint to look at the output of the conversion for
  the actual path, and returns normally. It looks nowhere else: the file system stays as
  the conversion left it, and the two collaborator calls made before are the only ones.
\<close>

theorem export_missing_reports:
  assumes res: "(case w of None \<Rightarrow> get_best_weights (files s) | Some p \<Rightarrow> Return p) = Return wp"
    and load: "yolo_load c (str_path wp) (files s) = (None, fs1)"
    and conv: "yolo_export c (str_path wp)
                 \<lparr>export_format = ''coreml'', export_nms = True, export_imgsz = IMGSZ\<rparr> fs1
               = (None, fs2)"
    and suf: "with_suffix wp ''.mlpackage'' = Return exported"
    and missing: "\<not> path_exists fs2 exported"
  shows "export_to_coreml c w s =
           (Return (),
            s\<lparr>files := fs2,
              calls := calls s @ [YOLO (str_path wp),
                                  Export (str_path wp)
                                    \<lparr>export_format = ''coreml'', export_nms = True,
                                     export_imgsz = IMGSZ\<rparr>],
              stdout := stdout s @ [exporting_msg wp,
                                    warning_sign @ ''  Expected export at '' @ str_path exported
                                      @ '' but not found.'',
                                    ''   Check the ultralytics output above for the actual path.'']\<rparr>)"
  using export_to_coreml_missing [OF res load conv suf missing]
  by (simp add: not_found_warning_def check_output_hint_def)

lemma example_runs_best:
  "get_best_weights example_runs = Return [''runs'', ''detect2'', ''weights'', ''best.pt'']"
  by (simp add: eval_defs example_runs_def)

theorem export_missing_reports_witness:
  "get_best_weights example_runs = Return [''runs'', ''detect2'', ''weights'', ''best.pt'']
   \<and> with_suffix [''runs'', ''detect2'', ''weights'', ''best.pt''] ''.mlpackage''
       = Return [''runs'', ''detect2'', ''weights'', ''best.mlpackage'']
   \<and> \<not> path_exists example_runs [''runs'', ''detect2'', ''weights'', ''best.mlpackage'']
   \<and> export_to_coreml idle None (initial_state example_runs Map.empty) =
        (Return (),
         \<lparr>files = example_runs, environ = Map.empty, EPOCHS = 30,
          calls = [YOLO ''runs/detect2/weights/best.pt'',
                   Export ''runs/detect2/weights/best.pt''
                     \<lparr>export_format = ''coreml'', export_nms = True, export_imgsz = 640\<rparr>],
          stdout = [exporting_msg [''runs'', ''detect2'', ''weights'', ''best.pt''],
                    warning_sign @ ''  Expected export at runs/detect2/weights/best.mlpackage but not found.'',
                    ''   Check the ultralytics output above for the actual path.'']\<rparr>)"
proof -
  let ?s = "initial_state example_runs Map.empty"
  let ?wp = "[''runs'', ''detect2'', ''weights'', ''best.pt'']"
  let ?exported = "[''runs'', ''detect2'', ''weights'', ''best.mlpackage'']"
  have res: "(case None of None \<Rightarrow> get_best_weights (files ?s) | Some p \<Rightarrow> Return p) = Return ?wp"
    by (simp add: initial_state_def example_runs_best)
  have load: "yolo_load idle (str_path ?wp) (files ?s) = (None, example_runs)"
    by (simp add: idle_def initial_state_def)
  have conv: "yolo_export idle (str_path ?wp)
                \<lparr>export_format = ''coreml'', export_nms = True, export_imgsz = IMGSZ\<rparr>
                example_runs = (None, example_runs)"
    by (simp add: idle_def)
  have missing: "\<not> path_exists example_runs ?exported"
    by (simp add: path_exists_def example_runs_def weights_dir_def)
  from export_missing_reports [OF res load conv best_suffix missing]
  have "export_to_coreml idle None ?s =
        (Return (),
         \<lparr>files = example_runs, environ = Map.empty, EPOCHS = 30,
          calls = [YOLO ''runs/detect2/weights/best.pt'',
                   Export ''runs/detect2/weights/best.pt''
                     \<lparr>export_format = ''coreml'', export_nms = True, export_imgsz = 640\<rparr>],
          stdout = [exporting_msg [''runs'', ''detect2'', ''weights'', ''best.pt''],
                    warning_sign @ ''  Expected export at runs/detect2/weights/best.mlpackage but not found.'',
                    ''   Check the ultralytics output above for the actual path.'']\<rparr>)"
    by (simp add: initial_state_def str_path_def IMGSZ_def)
  with example_runs_best best_suffix missing show ?thesis by simp
qed

text \<open>
  The export does not fail in that case: with collaborators that write nothing, the
  predicted path \<open>runs/detect2/weights/best.mlpackage\<close> does not exist after the
  conversion, the export returns normally and the process ends with status 0.
\<close>

theorem export_missing_counterexample:
  "with_suffix [''runs'', ''detect2'', ''weights'', ''best.pt''] ''.mlpackage''
       = Return [''runs'', ''detect2'', ''weights'', ''best.mlpackage'']
   \<and> \<not> path_exists (files (snd (export_to_coreml idle (Some [''runs'', ''detect2'', ''weights'', ''best.pt''])
                                (initial_state example_runs Map.empty))))
           [''runs'', ''detect2'', ''weights'', ''best.mlpackage'']
   \<and> fst (export_to_coreml idle (Some [''runs'', ''detect2'', ''weights'', ''best.pt''])
            (initial_state example_runs Map.empty)) = Return ()
   \<and> exit_status (fst (main idle \<lparr>cli_train = False, cli_export = True,
                                   cli_weights = Some ''runs/detect2/weights/best.pt'',
                                   cli_epochs = None\<rparr>
                          (initial_state example_runs Map.empty))) = 0"
proof -
  let ?s = "initial_state example_runs Map.empty"
  let ?wp = "[''runs'', ''detect2'', ''weights'', ''best.pt'']"
  let ?exported = "[''runs'', ''detect2'', ''weights'', ''best.mlpackage'']"
  have res: "(case Some ?wp of None \<Rightarrow> get_best_weights (files ?s) | Some p \<Rightarrow> Return p) = Return ?wp"
    by simp
  have load: "yolo_load idle (str_path ?wp) (files ?s) = (None, example_runs)"
    by (simp add: idle_def initial_state_def)
  have conv: "yolo_export idle (str_path ?wp) coreml_args example_runs = (None, example_runs)"
    by (simp add: idle_def)
  have missing: "\<not> path_exists example_runs ?exported"
    by (simp add: path_exists_def example_runs_def weights_dir_def)
  note run = export_to_coreml_missing [OF res load conv best_suffix missing]
  have p: "Path ''runs/detect2/weights/best.pt'' = ?wp"
    by (simp add: Path_def)
  have "fst (main idle \<lparr>cli_train = False, cli_export = True,
                        cli_weights = Some ''runs/detect2/weights/best.pt'',
                        cli_epochs = None\<rparr> ?s) = Return ()"
    by (simp add: main_def andthen_def ret_def parse_args_def p run Let_def)
  with run missing best_suffix show ?thesis
    by (simp add: exit_status_def)
qed

text \<open>
  Claim C8. When the conversion routine returns and the predicted path does not exist,
  the export leaves the file system exactly as the conversion routine left it; so a
  package that was at the package path and that the collaborators did not touch is
  still there, whole.
\<close>

theorem export_missing_keeps_package:
  assumes res: "(case w of None \<Rightarrow> get_best_weights (files s) | Some p \<Rightarrow> Return p) = Return wp"
    and load: "yolo_load c (str_path wp) (files s) = (None, fs1)"
    and conv: "yolo_export c (str_path wp)
                 \<lparr>export_format = ''coreml'', export_nms = True, export_imgsz = IMGSZ\<rparr> fs1
               = (None, fs2)"
    and suf: "with_suffix wp ''.mlpackage'' = Return exported"
    and missing: "\<not> path_exists fs2 exported"
    and pre: "lookup (files s) [''MahjongTileDetector.mlpackage''] = Some old"
    and kept: "lookup fs2 [''MahjongTileDetector.mlpackage'']
                 = lookup (files s) [''MahjongTileDetector.mlpackage'']"
  shows "files (snd (export_to_coreml c w s)) = fs2
         \<and> lookup (files (snd (export_to_coreml c w s))) [''MahjongTileDetector.mlpackage'']
             = Some old"
  using export_to_coreml_missing [OF res load conv suf missing] pre kept
  by simp

theorem export_missing_keeps_package_witness:
  "lookup example_stale [''MahjongTileDetector.mlpackage''] = Some stale_package
   \<and> \<not> path_exists example_stale [''runs'', ''detect2'', ''weights'', ''best.mlpackage'']
   \<and> files (snd (export_to_coreml idle None (initial_state example_stale Map.empty)))
       = example_stale
   \<and> lookup (files (snd (export_to_coreml idle None (initial_state example_stale Map.empty))))
        [''MahjongTileDetector.mlpackage''] = Some stale_package"
proof -
  let ?s = "initial_state example_stale Map.empty"
  let ?wp = "[''runs'', ''detect2'', ''weights'', ''best.pt'']"
  let ?exported = "[''runs'', ''detect2'', ''weights'', ''best.mlpackage'']"
  have res: "(case None of None \<Rightarrow> get_best_weights (files ?s) | Some p \<Rightarrow> Return p) = Return ?wp"
    by (simp add: initial_state_def example_stale_best)
  have load: "yolo_load idle (str_path ?wp) (files ?s) = (None, example_stale)"
    by (simp add: idle_def initial_state_def)
  have conv: "yolo_export idle (str_path ?wp)
                \<lparr>export_format = ''coreml'', export_nms = True, export_imgsz = IMGSZ\<rparr>
                example_stale = (None, example_stale)"
    by (simp add: idle_def)
  have missing: "\<not> path_exists example_stale ?exported"
    by (simp add: path_exists_def example_stale_def weights_dir_def)
  have pre: "lookup (files ?s) [''MahjongTileDetector.mlpackage''] = Some stale_package"
    by (simp add: initial_state_def example_stale_def)
  have kept: "lookup example_stale [''MahjongTileDetector.mlpackage'']
                = lookup (files ?s) [''MahjongTileDetector.mlpackage'']"
    by (simp add: initial_state_def)
  from export_missing_keeps_package [OF res load conv best_suffix missing pre kept] pre missing
  show ?thesis by (simp add: initial_state_def)
qed

section \<open>No weights\<close>

lemma export_to_coreml_unresolved:
  assumes "get_best_weights (files s) = Raise e"
  shows "export_to_coreml c None s = (Raise e, s)"
  using assms by (simp add: export_to_coreml_def andthen_def)

text \<open>
  Claim C6. When no matched run holds a \<open>best.pt\<close> or a \<open>last.pt\<close>,
  \<open>get_best_weights\<close> raises \<open>FileNotFoundError\<close> (the not-found error of the
  specification) with a message that says to train first; an export without a weights
  path raises it before anything else happens, and the process ends with status 1.
\<close>

theorem no_weights_fatal:
  assumes nb: "\<forall>r. \<not> has_checkpoint (files s) ''best.pt'' r"
    and nl: "\<forall>r. \<not> has_checkpoint (files s) ''last.pt'' r"
  shows "get_best_weights (files s)
           = Raise (FileNotFoundError ''No trained weights found. Run with --train first.'')
         \<and> export_to_coreml c None s
           = (Raise (FileNotFoundError ''No trained weights found. Run with --train first.''), s)
         \<and> (cli_export argv \<and> \<not> cli_train argv
              \<and> (cli_weights argv = None \<or> cli_weights argv = Some []) \<longrightarrow>
             fst (main c argv s)
               = Raise (FileNotFoundError ''No trained weights found. Run with --train first.'')
             \<and> exit_status (fst (main c argv s)) = 1)"
proof -
  from get_best_weights_none [OF nb nl]
  have g: "get_best_weights (files s)
             = Raise (FileNotFoundError ''No trained weights found. Run with --train first.'')"
    by (simp add: no_weights_msg_def)
  note e = export_to_coreml_unresolved [OF g]
  have e': "export_to_coreml c None s' = (Raise (FileNotFoundError ''No trained weights found. Run with --train first.''), s')"
    if "files s' = files s" for s'
    using export_to_coreml_unresolved [of s' _ c] g that by simp
  have m: "fst (main c argv s)
             = Raise (FileNotFoundError ''No trained weights found. Run with --train first.'')"
    if "cli_export argv" "\<not> cli_train argv" "cli_weights argv = None \<or> cli_weights argv = Some []"
    using that by (auto simp: main_def andthen_def ret_def parse_args_def Let_def e')
  from g e m show ?thesis by (auto simp: exit_status_def)
qed

theorem no_weights_fatal_witness:
  "(\<forall>r. \<not> has_checkpoint empty_runs ''best.pt'' r)
   \<and> (\<forall>r. \<not> has_checkpoint empty_runs ''last.pt'' r)
   \<and> get_best_weights empty_runs
       = Raise (FileNotFoundError ''No trained weights found. Run with --train first.'')
   \<and> exit_status (fst (main idle \<lparr>cli_train = False, cli_export = True, cli_weights = None,
                                   cli_epochs = None\<rparr>
                          (initial_state empty_runs Map.empty))) = 1
   \<and> calls (snd (export_to_coreml idle None (initial_state empty_runs Map.empty))) = []"
proof -
  let ?s = "initial_state empty_runs Map.empty"
  let ?argv = "\<lparr>cli_train = False, cli_export = True, cli_weights = None, cli_epochs = None\<rparr>"
  have nb: "\<forall>r. \<not> has_checkpoint (files ?s) ''best.pt'' r"
    and nl: "\<forall>r. \<not> has_checkpoint (files ?s) ''last.pt'' r"
    by (simp_all add: initial_state_def has_checkpoint_def checkpoint_path_def path_exists_def
        empty_runs_def)
  from no_weights_fatal [OF nb nl, of idle ?argv] nb nl
  show ?thesis by (simp add: initial_state_def exit_status_def)
qed

section \<open>The log of collaborator calls\<close>

lemma andthen_assoc: "andthen (andthen m f) g = andthen m (\<lambda>x. andthen (f x) g)"
  by (rule ext) (simp add: andthen_def split: prod.splits result.splits)

lemma train_split: "train c = andthen (ensure_dataset c) (\<lambda>_. train_on_dataset c)"
  by (simp add: train_def ensure_dataset_def train_on_dataset_def andthen_assoc Let_def)

lemma stepsI:
  assumes "\<And>s. EPOCHS s = e \<Longrightarrow> EPOCHS (snd (m s)) = e"
    and "\<And>s. EPOCHS s = e \<Longrightarrow> \<exists>cs. calls (snd (m s)) = calls s @ cs \<and> list_all P cs"
  shows "steps e P m"
  using assms by (simp add: steps_def)

lemma steps_quiet:
  assumes "\<And>s. EPOCHS (snd (m s)) = EPOCHS s" and "\<And>s. calls (snd (m s)) = calls s"
  shows "steps e P m"
  using assms by (simp add: steps_def)


lemma steps_raise: "steps e P (raise x)"
  by (rule steps_quiet) (simp_all add: raise_def)

lemma steps_print: "steps e P (print l)"
  by (rule steps_quiet) (simp_all add: print_def)

lemma steps_exists: "steps e P (exists p)"
  by (rule steps_quiet) (simp_all add: exists_def)

lemma steps_read: "steps e P (\<lambda>s. (g s, s))"
  by (rule steps_quiet) simp_all


lemma steps_collaborator: "P ev \<Longrightarrow> steps e P (collaborator ev f)"
  by (rule stepsI) (simp_all add: collaborator_def split: prod.splits option.splits)

lemma steps_andthen:
  assumes m: "steps e P m" and f: "\<And>x. steps e P (f x)"
  shows "steps e P (andthen m f)"
proof (rule stepsI)
  fix s :: state
  assume e: "EPOCHS s = e"
  obtain r s1 where ms: "m s = (r, s1)" by (cases "m s")
  from m e ms obtain cs where s1: "EPOCHS s1 = e" "calls s1 = calls s @ cs" "list_all P cs"
    by (auto simp: steps_def)
  show "EPOCHS (snd (andthen m f s)) = e"
  proof (cases r)
    case (Return x)
    with f [of x] s1 ms show ?thesis by (simp add: andthen_def steps_def)
  next
    case (Raise x)
    with s1 ms show ?thesis by (simp add: andthen_def)
  qed
  show "\<exists>cs. calls (snd (andthen m f s)) = calls s @ cs \<and> list_all P cs"
  proof (cases r)
    case (Return x)
    from f [of x] s1(1) obtain ds where "calls (snd (f x s1)) = calls s1 @ ds" "list_all P ds"
      by (auto simp: steps_def)
    with s1 have "calls (snd (f x s1)) = calls s @ (cs @ ds) \<and> list_all P (cs @ ds)" by simp
    with Return ms show ?thesis by (auto simp: andthen_def)
  next
    case (Raise x)
    with s1 ms show ?thesis by (auto simp: andthen_def)
  qed
qed


lemma steps_if:
  "steps e P m \<Longrightarrow> steps e P m' \<Longrightarrow> steps e P (if b then m else m')"
  by simp



lemma steps_train_on_dataset:
  assumes "P (YOLO BASE_MODEL)"
    and "\<And>a. train_epochs a = e \<Longrightarrow> train_imgsz a = IMGSZ \<Longrightarrow> P (Train BASE_MODEL a)"
  shows "steps e P (train_on_dataset c)"
proof -
  have a: "steps e P (\<lambda>s. print (training_msg (EPOCHS s)) s)"
    by (rule steps_quiet) (simp_all add: print_def)
  have b: "steps e P
             (\<lambda>s. collaborator
                     (Train BASE_MODEL
                        \<lparr>train_data = DATA_ROOT @ [''data.yaml''], train_epochs = EPOCHS s,
                         train_imgsz = IMGSZ, train_batch = - 1, train_device = ''mps'',
                         train_project = str_path (parent RUNS_DIR), train_name = name RUNS_DIR\<rparr>)
                     (yolo_train c BASE_MODEL
                        \<lparr>train_data = DATA_ROOT @ [''data.yaml''], train_epochs = EPOCHS s,
                         train_imgsz = IMGSZ, train_batch = - 1, train_device = ''mps'',
                         train_project = str_path (parent RUNS_DIR), train_name = name RUNS_DIR\<rparr>)
                     s)"
    by (rule stepsI) (simp_all add: collaborator_def assms(2) split: prod.splits option.splits)
  have r: "steps e P (\<lambda>s. (get_best_weights (files s), s))"
    by (rule steps_read)
  show ?thesis
    unfolding train_on_dataset_def Let_def
    by (intro steps_andthen steps_exists steps_if steps_raise steps_print a b r
        steps_collaborator assms(1))
qed




section \<open>Training, the dataset and the arguments of the calls\<close>

lemma data_root: "DATA_ROOT = [''Mahjong_detect-18'']"
  by code_simp

lemma main_dispatch:
  "main c argv s =
     dispatch c (parse_args (EPOCHS s) argv)
       (s\<lparr>EPOCHS := args_epochs (parse_args (EPOCHS s) argv)\<rparr>)"
  by (simp add: main_def dispatch_def andthen_def)



lemma ensure_dataset_present:
  "path_exists (files s) DATA_ROOT \<Longrightarrow> ensure_dataset c s = (Return (), s)"
  by (simp add: ensure_dataset_def andthen_def exists_def ret_def)

lemma train_present:
  "path_exists (files s) DATA_ROOT \<Longrightarrow> train c s = train_on_dataset c s"
  by (simp add: train_split andthen_def ensure_dataset_present)







lemma calls_ensure_dataset:
  "\<exists>ds. calls (snd (ensure_dataset c s)) = calls s @ ds \<and> length ds \<le> 1"
proof -
  let ?env = "load_dotenv c (files s) (environ s)"
  show ?thesis
  proof (cases "path_exists (files s) DATA_ROOT")
    case True
    then show ?thesis by (simp add: ensure_dataset_present)
  next
    case False
    show ?thesis
    proof (cases "?env ''API_KEY''")
      case None
      with False show ?thesis
        by (simp add: ensure_dataset_def download_data_def andthen_def exists_def print_def
            raise_def)
    next
      case (Some k)
      with False show ?thesis
        by (simp add: ensure_dataset_def download_data_def andthen_def exists_def print_def
            raise_def collaborator_def Let_def split: prod.splits option.splits)
    qed
  qed
qed

lemma fetches_append: "fetches (xs @ ys) = fetches xs + fetches ys"
  by (simp add: fetches_def)

lemma fetches_none: "list_all (\<lambda>ev. \<not> is_download ev) cs \<Longrightarrow> fetches cs = 0"
  by (simp add: fetches_def list_all_iff)

lemma fetches_le_length: "fetches cs \<le> length cs"
  by (simp add: fetches_def)

lemma fetches_train_on_dataset:
  "fetches (calls (snd (train_on_dataset c s))) = fetches (calls s)"
proof -
  have "steps (EPOCHS s) (\<lambda>ev. \<not> is_download ev) (train_on_dataset c)"
    by (rule steps_train_on_dataset) (simp_all add: is_download_def)
  then obtain cs where "calls (snd (train_on_dataset c s)) = calls s @ cs"
    and "list_all (\<lambda>ev. \<not> is_download ev) cs"
    by (auto simp: steps_def)
  then show ?thesis by (simp add: fetches_append fetches_none)
qed

lemma fetches_train:
  "fetches (calls (snd (train c s))) \<le> fetches (calls s) + 1"
proof -
  obtain r s1 where e: "ensure_dataset c s = (r, s1)" by (cases "ensure_dataset c s")
  from calls_ensure_dataset [of c s] e obtain ds
    where ds: "calls s1 = calls s @ ds" "length ds \<le> 1" by auto
  have "fetches ds \<le> 1" using fetches_le_length [of ds] ds(2) by simp
  with ds(1) have s1: "fetches (calls s1) \<le> fetches (calls s) + 1"
    by (simp add: fetches_append)
  show ?thesis
  proof (cases r)
    case (Return u)
    with e have "train c s = train_on_dataset c s1" by (simp add: train_split andthen_def)
    with s1 show ?thesis by (simp add: fetches_train_on_dataset)
  next
    case (Raise x)
    with e have "train c s = (Raise x, s1)" by (simp add: train_split andthen_def)
    with s1 show ?thesis by simp
  qed
qed

text \<open>
  Claim C4, as the code has it. When the dataset root exists, \<open>train\<close> makes no remote
  fetch. One run of \<open>train\<close> makes at most one fetch. Two runs in a row make at most one
  fetch in all, provided the dataset root exists when the second run starts.
\<close>

theorem dataset_fetched_once:
  "(path_exists (files s) DATA_ROOT \<longrightarrow> fetches (calls (snd (train c s))) = fetches (calls s))
   \<and> fetches (calls (snd (train c s))) \<le> fetches (calls s) + 1
   \<and> (path_exists (files (snd (train c s))) DATA_ROOT \<longrightarrow>
        fetches (calls (snd (train c (snd (train c s))))) \<le> fetches (calls s) + 1)"
proof (intro conjI impI)
  assume "path_exists (files s) DATA_ROOT"
  then show "fetches (calls (snd (train c s))) = fetches (calls s)"
    by (simp add: train_present fetches_train_on_dataset)
next
  show "fetches (calls (snd (train c s))) \<le> fetches (calls s) + 1"
    by (rule fetches_train)
next
  assume "path_exists (files (snd (train c s))) DATA_ROOT"
  then have "fetches (calls (snd (train c (snd (train c s))))) = fetches (calls (snd (train c s)))"
    by (simp add: train_present fetches_train_on_dataset)
  with fetches_train [of c s]
  show "fetches (calls (snd (train c (snd (train c s))))) \<le> fetches (calls s) + 1"
    by simp
qed

lemmas train_defs = train_def download_data_def andthen_def exists_def print_def ret_def
  raise_def collaborator_def Let_def data_root path_exists_def initial_state_def

text \<open>
  Two runs can fetch twice: when the dataset service cannot be reached, and when the
  fetch returns but leaves no dataset root (a stub of the remote call), the second run
  fetches again.
\<close>

theorem refetch_counterexample:
  "fetches (calls (snd (train offline (snd (train offline (initial_state (Dir []) with_key))))))
     = 2
   \<and> fetches (calls (snd (train idle (snd (train idle (initial_state (Dir []) with_key))))))
     = 2"
  by (simp add: train_defs offline_def idle_def with_key_def fetches_def is_download_def)

lemma first_run:
  "train fetches_dataset (initial_state (Dir []) with_key) =
     (Raise (FileNotFoundError no_weights_msg),
      \<lparr>files = example_dataset, environ = with_key, EPOCHS = 30,
       calls = [RoboflowDownload \<lparr>rf_api_key = ''secret'', rf_workspace = ''mahjongdetect-6yabv'',
                                  rf_project = ''mahjong_detect'', rf_version = 18,
                                  rf_format = ''yolov11''\<rparr>,
                YOLO ''yolo11s.pt'', Train ''yolo11s.pt'' (training_args 30)],
       stdout = [downloading_msg, downloaded_msg, training_msg 30]\<rparr>)"
  by (simp add: train_defs fetches_dataset_def idle_def with_key_def example_dataset_def
      get_best_weights_def runs_parent listdir_def BASE_MODEL_def ROBOFLOW_VERSION_def)

theorem dataset_fetched_once_witness:
  "\<not> path_exists (Dir []) DATA_ROOT
   \<and> fetches (calls (snd (train fetches_dataset (initial_state (Dir []) with_key)))) = 1
   \<and> path_exists (files (snd (train fetches_dataset (initial_state (Dir []) with_key)))) DATA_ROOT
   \<and> fetches (calls (snd (train fetches_dataset
          (snd (train fetches_dataset (initial_state (Dir []) with_key)))))) = 1
   \<and> path_exists example_dataset DATA_ROOT
   \<and> fetches (calls (snd (train offline (initial_state example_dataset Map.empty)))) = 0"
proof -
  let ?s = "initial_state (Dir []) with_key"
  let ?s1 = "snd (train fetches_dataset ?s)"
  have a: "\<not> path_exists (Dir []) DATA_ROOT"
    by (simp add: data_root path_exists_def)
  have b: "fetches (calls ?s1) = 1"
    by (simp add: first_run fetches_def is_download_def)
  have c: "path_exists (files ?s1) DATA_ROOT"
    by (simp add: first_run data_root path_exists_def example_dataset_def)
  have d: "path_exists example_dataset DATA_ROOT"
    by (simp add: data_root path_exists_def example_dataset_def)
  from dataset_fetched_once [of ?s1 fetches_dataset] c b
  have e: "fetches (calls (snd (train fetches_dataset ?s1))) = 1" by simp
  from dataset_fetched_once [of "initial_state example_dataset Map.empty" offline] d
  have f: "fetches (calls (snd (train offline (initial_state example_dataset Map.empty)))) = 0"
    by (simp add: initial_state_def fetches_def)
  from a b c d e f show ?thesis by simp
qed

lemma api_key_msg_text:
  "api_key_msg = ''Set your Roboflow API key:'' @ [CHR 0x0A] @ ''  echo '' @ [CHR 0x27]
                   @ ''API_KEY=your_key_here'' @ [CHR 0x27] @ '' > .env''"
  by (simp add: api_key_msg_def)

lemma download_data_no_key:
  assumes "load_dotenv c (files s) (environ s) ''API_KEY'' = None
           \<or> load_dotenv c (files s) (environ s) ''API_KEY'' = Some []"
  shows "download_data c s =
           (Raise (ValueError api_key_msg), s\<lparr>environ := load_dotenv c (files s) (environ s)\<rparr>)"
  using assms by (auto simp: download_data_def andthen_def raise_def)

lemma train_no_key:
  assumes "load_dotenv c (files s) (environ s) ''API_KEY'' = None
           \<or> load_dotenv c (files s) (environ s) ''API_KEY'' = Some []"
    and "\<not> path_exists (files s) DATA_ROOT"
  shows "train c s =
           (Raise (ValueError api_key_msg),
            s\<lparr>stdout := stdout s @ [downloading_msg],
              environ := load_dotenv c (files s) (environ s)\<rparr>)"
proof -
  let ?s = "s\<lparr>stdout := stdout s @ [downloading_msg]\<rparr>"
  from assms(1) have "download_data c ?s =
      (Raise (ValueError api_key_msg), ?s\<lparr>environ := load_dotenv c (files s) (environ s)\<rparr>)"
    using download_data_no_key [of c ?s] by simp
  with assms(2) show ?thesis
    by (simp add: train_def andthen_def exists_def print_def)
qed

text \<open>
  Claim C7. When no key is available after the \<open>.env\<close> file was loaded (the variable is
  unset or empty), \<open>download_data\<close> raises \<open>ValueError\<close> (the configuration error of
  the specification) with the command that sets the key, before any call to the dataset
  service; and a run of \<open>main\<close> that trains while the dataset root is absent ends with
  status 1 without any collaborator call.
\<close>

theorem missing_credential:
  assumes "load_dotenv c (files s) (environ s) ''API_KEY'' = None
           \<or> load_dotenv c (files s) (environ s) ''API_KEY'' = Some []"
  shows "download_data c s =
           (Raise (ValueError (''Set your Roboflow API key:'' @ [CHR 0x0A] @ ''  echo ''
                                 @ [CHR 0x27] @ ''API_KEY=your_key_here'' @ [CHR 0x27]
                                 @ '' > .env'')),
            s\<lparr>environ := load_dotenv c (files s) (environ s)\<rparr>)
         \<and> calls (snd (download_data c s)) = calls s
         \<and> (\<not> path_exists (files s) DATA_ROOT \<and> cli_train argv \<longrightarrow>
              fst (main c argv s) = Raise (ValueError api_key_msg)
              \<and> exit_status (fst (main c argv s)) = 1
              \<and> calls (snd (main c argv s)) = calls s)"
proof -
  from download_data_no_key [OF assms]
  have a: "download_data c s =
           (Raise (ValueError api_key_msg), s\<lparr>environ := load_dotenv c (files s) (environ s)\<rparr>)" .
  have m: "fst (main c argv s) = Raise (ValueError api_key_msg)
           \<and> exit_status (fst (main c argv s)) = 1 \<and> calls (snd (main c argv s)) = calls s"
    if r: "\<not> path_exists (files s) DATA_ROOT" and t: "cli_train argv"
  proof -
    let ?a = "parse_args (EPOCHS s) argv"
    let ?s' = "s\<lparr>EPOCHS := args_epochs ?a\<rparr>"
    from t have at: "args_train ?a" by (simp add: parse_args_def)
    from assms r have "train c ?s' =
           (Raise (ValueError api_key_msg),
            ?s'\<lparr>stdout := stdout ?s' @ [downloading_msg],
              environ := load_dotenv c (files ?s') (environ ?s')\<rparr>)"
      using train_no_key [of c ?s'] by simp
    then have "main c argv s =
           (Raise (ValueError api_key_msg),
            ?s'\<lparr>stdout := stdout ?s' @ [downloading_msg],
              environ := load_dotenv c (files ?s') (environ ?s')\<rparr>)"
      by (simp add: main_dispatch dispatch_def andthen_def ret_def at)
    then show ?thesis by (simp add: exit_status_def)
  qed
  from a m show ?thesis by (simp add: api_key_msg_text exit_status_def)
qed

theorem missing_credential_witness:
  "load_dotenv idle (Dir []) Map.empty ''API_KEY'' = None
   \<and> \<not> path_exists (Dir []) DATA_ROOT
   \<and> fst (download_data idle (initial_state (Dir []) Map.empty))
       = Raise (ValueError (''Set your Roboflow API key:'' @ [CHR 0x0A] @ ''  echo ''
                                 @ [CHR 0x27] @ ''API_KEY=your_key_here'' @ [CHR 0x27]
                                 @ '' > .env''))
   \<and> exit_status (fst (main idle \<lparr>cli_train = True, cli_export = False, cli_weights = None,
                                   cli_epochs = None\<rparr> (initial_state (Dir []) Map.empty))) = 1
   \<and> calls (snd (main idle \<lparr>cli_train = True, cli_export = False, cli_weights = None,
                             cli_epochs = None\<rparr> (initial_state (Dir []) Map.empty))) = []"
proof -
  let ?s = "initial_state (Dir []) Map.empty"
  have k: "load_dotenv idle (files ?s) (environ ?s) ''API_KEY'' = None
           \<or> load_dotenv idle (files ?s) (environ ?s) ''API_KEY'' = Some []"
    by (simp add: idle_def initial_state_def)
  have r: "\<not> path_exists (files ?s) DATA_ROOT"
    by (simp add: data_root path_exists_def initial_state_def)
  have e: "load_dotenv idle (Dir []) Map.empty ''API_KEY'' = None"
    by (simp add: idle_def)
  from missing_credential [OF k, of "\<lparr>cli_train = True, cli_export = False, cli_weights = None,
                                   cli_epochs = None\<rparr>"] r e
  show ?thesis by (simp add: initial_state_def exit_status_def)
qed





end
